theory Spec2Isabelle
  imports Main
begin

section \<open>The Python the script relies on\<close>

text \<open>
  \<^verbatim>\<open>simple_whisper_solution.py\<close> is glue around the file system, the network, \<^verbatim>\<open>pip\<close>, the
  \<^verbatim>\<open>whisper\<close> library and \<^verbatim>\<open>argparse\<close>. This section models the Python values and library
  functions the script calls; the next one models what the outside world answers; the script
  itself follows, one definition per source function, with the source's names.

  A Python \<^verbatim>\<open>str\<close> is a \<^typ>\<open>string\<close>: one \<^typ>\<open>char\<close> per code point, so only code points below
  256 exist here.
\<close>

subsection \<open>Exceptions\<close>

text \<open>
  An exception is its class and the text \<^verbatim>\<open>str(e)\<close> gives. Every class below is a subclass of
  \<^verbatim>\<open>Exception\<close>, so \<^verbatim>\<open>except Exception\<close> catches each of them; \<^verbatim>\<open>except ImportError\<close> catches
  only \<open>ImportError\<close> (which stands for its subclass \<^verbatim>\<open>ModuleNotFoundError\<close> too).
  \<open>OtherError\<close> carries the name of any other class (\<^verbatim>\<open>OSError\<close>, \<^verbatim>\<open>HTTPError\<close>,
  \<^verbatim>\<open>CalledProcessError\<close>, ...). Interrupts from outside the program (\<^verbatim>\<open>KeyboardInterrupt\<close>) are
  not modelled.
\<close>

datatype exc_class =
    ImportError | TypeError | ValueError | KeyError | OverflowError
  | UnboundLocalError | AttributeError | OtherError string

datatype exc = Exc exc_class string

fun exc_class_of :: "exc \<Rightarrow> exc_class" where
  "exc_class_of (Exc c m) = c"

text \<open>\<^verbatim>\<open>str(e)\<close>, which is what \<^verbatim>\<open>f"...{e}"\<close> prints.\<close>

fun str_exc :: "exc \<Rightarrow> string" where
  "str_exc (Exc c m) = m"

definition is_ImportError :: "exc \<Rightarrow> bool" where
  "is_ImportError e = (exc_class_of e = ImportError)"

subsection \<open>Strings and numbers\<close>

text \<open>\<^verbatim>\<open>s.startswith(p)\<close> and \<^verbatim>\<open>needle in haystack\<close> on strings.\<close>

fun py_startswith :: "string \<Rightarrow> string \<Rightarrow> bool" where
  "py_startswith s [] = True"
| "py_startswith [] (p # ps) = False"
| "py_startswith (c # cs) (p # ps) = (c = p \<and> py_startswith cs ps)"

fun py_in :: "string \<Rightarrow> string \<Rightarrow> bool" where
  "py_in needle [] = (needle = [])"
| "py_in needle (c # cs) = (py_startswith (c # cs) needle \<or> py_in needle cs)"

text \<open>\<^verbatim>\<open>s.endswith(p)\<close>.\<close>

definition py_endswith :: "string \<Rightarrow> string \<Rightarrow> bool" where
  "py_endswith s p = py_startswith (rev s) (rev p)"

text \<open>An integer in decimal, as \<^verbatim>\<open>str\<close> and f-strings write it.\<close>

fun show_nat :: "nat \<Rightarrow> string" where
  "show_nat n =
     (if n < 10 then [''0123456789'' ! n]
      else show_nat (n div 10) @ [''0123456789'' ! (n mod 10)])"

declare show_nat.simps [simp del]

definition show_int :: "int \<Rightarrow> string" where
  "show_int i = (if i < 0 then ''-'' @ show_nat (nat (- i)) else show_nat (nat i))"

text \<open>
  \<^verbatim>\<open>int(x)\<close> for the only argument the script gives it, a header value or \<^verbatim>\<open>None\<close>.
  \<^verbatim>\<open>int(None)\<close> raises \<^verbatim>\<open>TypeError\<close>. A string of decimal digits, which is what HTTP allows as
  a Content-Length, is read as its value; CPython refuses more than 4300 digits. Python would
  also read surrounding blanks, a sign and single underscores between digits; such strings are
  refused here with the others, and no result below depends on that refusal.
\<close>

definition is_digit :: "char \<Rightarrow> bool" where
  "is_digit c = (48 \<le> (of_char c :: nat) \<and> (of_char c :: nat) \<le> 57)"

definition digits_value :: "string \<Rightarrow> nat" where
  "digits_value s = foldl (\<lambda>a c. 10 * a + (of_char c - 48)) 0 s"

definition py_int :: "string option \<Rightarrow> exc + int" where
  "py_int x =
     (case x of
        None \<Rightarrow> Inl (Exc TypeError
          (''int() argument must be a string, a bytes-like object or a real number, not ''
           @ [CHR 0x27] @ ''NoneType'' @ [CHR 0x27]))
      | Some s \<Rightarrow>
          if s \<noteq> [] \<and> list_all is_digit s then
            if length s \<le> 4300 then Inr (int (digits_value s))
            else Inl (Exc ValueError
              (''Exceeds the limit (4300 digits) for integer string conversion: value has ''
               @ show_nat (length s)
               @ '' digits; use sys.set_int_max_str_digits() to increase the limit''))
          else Inl (Exc ValueError
            (''invalid literal for int() with base 10: '' @ [CHR 0x27] @ s @ [CHR 0x27])))"

text \<open>
  \<^verbatim>\<open>n / (1024*1024)\<close> is true division: it gives a float, and raises \<^verbatim>\<open>OverflowError\<close> when
  the quotient rounds to \<open>2^1024\<close> or more. The float itself is not modelled: only whether the
  division raises.
\<close>

definition true_div_mb_raises :: "int \<Rightarrow> exc option" where
  "true_div_mb_raises n =
     (if \<bar>n\<bar> \<ge> 2 ^ 1044 - 2 ^ 990
      then Some (Exc OverflowError ''integer division result too large for a float'')
      else None)"

subsection \<open>Paths\<close>

text \<open>\<^verbatim>\<open>os.path.join(a, b)\<close> and \<^verbatim>\<open>os.path.dirname(p)\<close> of \<^verbatim>\<open>posixpath\<close>.\<close>

definition os_path_join :: "string \<Rightarrow> string \<Rightarrow> string" where
  "os_path_join a b =
     (if py_startswith b ''/'' then b
      else if a = [] \<or> py_endswith a ''/'' then a @ b
      else a @ ''/'' @ b)"

definition os_path_dirname :: "string \<Rightarrow> string" where
  "os_path_dirname p =
     (let head = rev (dropWhile (\<lambda>c. c \<noteq> CHR ''/'') (rev p)) in
      if head \<noteq> [] \<and> \<not> list_all (\<lambda>c. c = CHR ''/'') head
      then rev (dropWhile (\<lambda>c. c = CHR ''/'') (rev head))
      else head)"

subsection \<open>Values and \<^verbatim>\<open>json.dumps\<close>\<close>

text \<open>
  The values the transcription library hands back. A float is carried as the text
  \<^verbatim>\<open>json.dumps\<close> writes for it (its \<^verbatim>\<open>repr\<close>, or \<^verbatim>\<open>NaN\<close>, \<^verbatim>\<open>Infinity\<close>), a dictionary as its
  items in order, with string keys; \<open>PObject t\<close> is any object of a type \<open>t\<close> that
  \<^verbatim>\<open>json\<close> cannot write.
\<close>

datatype pyval =
    PNone | PBool bool | PInt int | PFloat string | PStr string
  | PList "pyval list" | PDict "(string \<times> pyval) list" | PObject string

text \<open>
  String escaping with \<^verbatim>\<open>ensure_ascii=True\<close>, the default: the printable ASCII characters
  stand for themselves, except the quote and the backslash; everything else is escaped.
\<close>

definition hex_digit :: "nat \<Rightarrow> char" where
  "hex_digit n = ''0123456789abcdef'' ! n"

definition json_escape_char :: "char \<Rightarrow> string" where
  "json_escape_char c =
     (if c = CHR 0x22 then [CHR 0x5C, CHR 0x22]
      else if c = CHR 0x5C then [CHR 0x5C, CHR 0x5C]
      else if c = CHR 0x0A then [CHR 0x5C, CHR ''n'']
      else if c = CHR 0x0D then [CHR 0x5C, CHR ''r'']
      else if c = CHR 0x09 then [CHR 0x5C, CHR ''t'']
      else if c = CHR 0x08 then [CHR 0x5C, CHR ''b'']
      else if c = CHR 0x0C then [CHR 0x5C, CHR ''f'']
      else if 32 \<le> (of_char c :: nat) \<and> (of_char c :: nat) \<le> 126 then [c]
      else [CHR 0x5C, CHR ''u'', CHR ''0'', CHR ''0'',
            hex_digit ((of_char c :: nat) div 16), hex_digit ((of_char c :: nat) mod 16)])"

definition json_string :: "string \<Rightarrow> string" where
  "json_string s = [CHR 0x22] @ concat (map json_escape_char s) @ [CHR 0x22]"

text \<open>\<^verbatim>\<open>', '.join(xs)\<close>, the item separator.\<close>

fun join_comma :: "string list \<Rightarrow> string" where
  "join_comma [] = []"
| "join_comma [x] = x"
| "join_comma (x # y # ys) = x @ '', '' @ join_comma (y # ys)"

text \<open>
  \<^verbatim>\<open>json.dumps(v)\<close> with the default separators. It writes the items in order and raises
  \<^verbatim>\<open>TypeError\<close> at the first object it cannot write.
\<close>

fun json_dumps :: "pyval \<Rightarrow> exc + string"
  and json_dumps_list :: "pyval list \<Rightarrow> exc + string list"
  and json_dumps_items :: "(string \<times> pyval) list \<Rightarrow> exc + string list"
where
  "json_dumps PNone = Inr ''null''"
| "json_dumps (PBool b) = Inr (if b then ''true'' else ''false'')"
| "json_dumps (PInt i) = Inr (show_int i)"
| "json_dumps (PFloat r) = Inr r"
| "json_dumps (PStr s) = Inr (json_string s)"
| "json_dumps (PList xs) =
     (case json_dumps_list xs of
        Inl e \<Rightarrow> Inl e
      | Inr ts \<Rightarrow> Inr (''['' @ join_comma ts @ '']''))"
| "json_dumps (PDict kvs) =
     (case json_dumps_items kvs of
        Inl e \<Rightarrow> Inl e
      | Inr ts \<Rightarrow> Inr (''{'' @ join_comma ts @ ''}''))"
| "json_dumps (PObject t) =
     Inl (Exc TypeError (''Object of type '' @ t @ '' is not JSON serializable''))"
| "json_dumps_list [] = Inr []"
| "json_dumps_list (x # xs) =
     (case json_dumps x of
        Inl e \<Rightarrow> Inl e
      | Inr t \<Rightarrow> (case json_dumps_list xs of Inl e \<Rightarrow> Inl e | Inr ts \<Rightarrow> Inr (t # ts)))"
| "json_dumps_items [] = Inr []"
| "json_dumps_items ((k, v) # kvs) =
     (case json_dumps v of
        Inl e \<Rightarrow> Inl e
      | Inr t \<Rightarrow>
          (case json_dumps_items kvs of
             Inl e \<Rightarrow> Inl e
           | Inr ts \<Rightarrow> Inr ((json_string k @ '': '' @ t) # ts)))"

text \<open>\<^verbatim>\<open>d.get(k, default)\<close> and \<^verbatim>\<open>d[k]\<close> on a dictionary given by its items.\<close>

definition dict_get :: "(string \<times> pyval) list \<Rightarrow> string \<Rightarrow> pyval \<Rightarrow> pyval" where
  "dict_get d k dflt = (case map_of d k of None \<Rightarrow> dflt | Some v \<Rightarrow> v)"

definition dict_index :: "(string \<times> pyval) list \<Rightarrow> string \<Rightarrow> exc + pyval" where
  "dict_index d k =
     (case map_of d k of
        None \<Rightarrow> Inl (Exc KeyError ([CHR 0x27] @ k @ [CHR 0x27]))
      | Some v \<Rightarrow> Inr v)"

section \<open>The outside world\<close>

text \<open>
  The state a run reads and changes: the file system (a path is absent, a directory, or a
  file with its bytes), what was written to standard output and standard error, the
  network requests made, the subprocesses started, and the modules already imported.
\<close>

datatype node = Dir | File string

text \<open>
  A line of output. Three kinds of lines are kept symbolic: the one line whose text comes out
  of floating-point arithmetic (\<^verbatim>\<open>f"Model URL is valid. File size: {n / (1024*1024):.2f} MB"\<close>,
  carried with \<open>n\<close>), the help text \<^verbatim>\<open>argparse\<close> generates for a parser (the empty name for
  the main parser, else the subcommand), and the usage-and-error text \<^verbatim>\<open>argparse\<close> writes
  when it rejects a command line.
\<close>

datatype out_line = Line string | ModelSizeLine int | ParserHelp string | UsageError

text \<open>A request: method, URL, and the timeout in seconds if one was given.\<close>

datatype net_request = Request string string "nat option"

record state =
  fs :: "string \<rightharpoonup> node"
  stdout :: "out_line list"
  stderr :: "out_line list"
  net :: "net_request list"
  procs :: "string list list"
  sys_modules :: "string set"

text \<open>
  What \<^verbatim>\<open>parser.parse_args()\<close> returns: a namespace, where an attribute the chosen
  subcommand does not define is absent (\<open>None\<close>); or the exit \<^verbatim>\<open>argparse\<close> itself makes, with
  the exit code and what it wrote to standard output and standard error.
\<close>

record namespace =
  command :: "string option"
  verbose :: "bool option"
  verify :: "bool option"
  audio_path :: "string option"

datatype parse_outcome = Parsed namespace | ParserExit nat "out_line list" "out_line list"

text \<open>
  What the world answers to each call that leaves the program, one field per call site.
  \<open>None\<close> in an \<open>exc option\<close> means the call returned normally.
  \<^item> \<open>urlretrieve\<close>: the transfer wrote the whole file (its bytes), or raised, possibly
    after it had created the destination file (the bytes left there).
  \<^item> \<open>urlopen_head\<close>: the HEAD request raised (a timeout, an HTTP error status), or gave a
    response with a status and, if present, the value of its Content-Length header.
  \<^item> \<open>progress_output\<close>: what the progress bar wrote to standard output during the
    transfer (nothing for \<^verbatim>\<open>tqdm\<close>, which draws on standard error).
  \<^item> \<open>other_argv\<close>: what \<^verbatim>\<open>argparse\<close> does with a command line outside the fragment modelled
    in \<open>parse_args\<close> below.
\<close>

datatype retrieve_outcome = Retrieved string | RetrieveFailed exc "string option"

datatype head_outcome = HeadRaised exc | HeadResponse int "string option"

record world =
  app_data_dir :: string
  sys_executable :: string
  import_tqdm :: "exc option"
  pip_tqdm :: "exc option"
  import_tqdm_again :: "exc option"
  makedirs_at_import :: "exc option"
  makedirs_at_download :: "exc option"
  progress_output :: "out_line list"
  urlretrieve :: retrieve_outcome
  urlopen_head :: head_outcome
  import_whisper :: "exc option"
  pip_whisper :: "exc option"
  import_whisper_again :: "exc option"
  load_model :: "exc option"
  transcribe :: "string \<Rightarrow> exc + (string \<times> pyval) list"
  other_argv :: "string list \<Rightarrow> parse_outcome"

text \<open>How a process ends: \<^verbatim>\<open>sys.exit(n)\<close>, or an exception nobody caught (a traceback).\<close>

datatype outcome = Exit nat | Uncaught exc

text \<open>The exit status the caller of the process sees: Python ends with 1 after a traceback.\<close>

fun exit_status :: "outcome \<Rightarrow> nat" where
  "exit_status (Exit n) = n"
| "exit_status (Uncaught e) = 1"

subsection \<open>Library calls with effects\<close>

definition print :: "string \<Rightarrow> state \<Rightarrow> state" where
  "print l s = s\<lparr>stdout := stdout s @ [Line l]\<rparr>"

definition os_path_exists :: "state \<Rightarrow> string \<Rightarrow> bool" where
  "os_path_exists s p = (fs s p \<noteq> None)"

text \<open>
  \<^verbatim>\<open>os.makedirs(p, exist_ok=True)\<close>: nothing to do when \<open>p\<close> is a directory,
  \<^verbatim>\<open>FileExistsError\<close> when it is a file, else the directory is created unless the world
  refuses (permissions, a read-only disk). The parents it creates on the way are not tracked.
\<close>

definition os_makedirs :: "exc option \<Rightarrow> string \<Rightarrow> state \<Rightarrow> state \<times> exc option" where
  "os_makedirs refusal p s =
     (case fs s p of
        Some Dir \<Rightarrow> (s, None)
      | Some (File b) \<Rightarrow>
          (s, Some (Exc (OtherError ''FileExistsError'')
                     (''[Errno 17] File exists: '' @ [CHR 0x27] @ p @ [CHR 0x27])))
      | None \<Rightarrow>
          (case refusal of
             Some e \<Rightarrow> (s, Some e)
           | None \<Rightarrow> (s\<lparr>fs := (fs s)(p \<mapsto> Dir)\<rparr>, None)))"

text \<open>\<^verbatim>\<open>subprocess.check_call(argv)\<close> starts a process; the world decides how it ends.\<close>

definition check_call :: "string list \<Rightarrow> state \<Rightarrow> state" where
  "check_call argv s = s\<lparr>procs := procs s @ [argv]\<rparr>"

text \<open>
  \<^verbatim>\<open>import m\<close>: a module already imported is found again without loading anything; else the
  world decides whether loading it succeeds.
\<close>

definition py_import :: "string \<Rightarrow> exc option \<Rightarrow> state \<Rightarrow> state \<times> exc option" where
  "py_import m answer s =
     (if m \<in> sys_modules s then (s, None)
      else case answer of
             None \<Rightarrow> (s\<lparr>sys_modules := insert m (sys_modules s)\<rparr>, None)
           | Some e \<Rightarrow> (s, Some e))"

section \<open>The script\<close>

subsection \<open>Configuration\<close>

definition MODEL_SIZE :: string where
  "MODEL_SIZE = ''tiny''"

definition MODEL_LANG :: string where
  "MODEL_LANG = ''en''"

text \<open>\<open>app_data_dir w\<close> is the value of \<^verbatim>\<open>os.path.expanduser("~/.fethr")\<close>.\<close>

definition APP_DATA_DIR :: "world \<Rightarrow> string" where
  "APP_DATA_DIR w = app_data_dir w"

definition MODELS_DIR :: "world \<Rightarrow> string" where
  "MODELS_DIR w = os_path_join (APP_DATA_DIR w) ''models''"

definition WHISPER_MODEL_URL :: string where
  "WHISPER_MODEL_URL =
     ''https://huggingface.co/ggerganov/whisper.cpp/resolve/main/ggml-''
       @ MODEL_SIZE @ ''.'' @ MODEL_LANG @ ''.bin''"

definition WHISPER_MODEL_PATH :: "world \<Rightarrow> string" where
  "WHISPER_MODEL_PATH w =
     os_path_join (MODELS_DIR w) (''ggml-'' @ MODEL_SIZE @ ''.'' @ MODEL_LANG @ ''.bin'')"

text \<open>
  The local \<^verbatim>\<open>model_url\<close> of \<^verbatim>\<open>download_model\<close> and \<^verbatim>\<open>verify_model_download\<close>, built by the
  same f-string as \<^verbatim>\<open>WHISPER_MODEL_URL\<close>.
\<close>

definition model_url :: string where
  "model_url =
     ''https://huggingface.co/ggerganov/whisper.cpp/resolve/main/ggml-''
       @ MODEL_SIZE @ ''.'' @ MODEL_LANG @ ''.bin''"

subsection \<open>Module level (lines 21 to 65)\<close>

text \<open>
  The import of \<^verbatim>\<open>tqdm\<close>, with its installation and its fallback class, then the creation of
  the models directory. The result is the state and the exception that ended the import of
  the script, if one did. Which progress bar class is in use only changes what the bar
  draws, which is the world's \<open>progress_output\<close>.
\<close>

definition module_level :: "world \<Rightarrow> state \<Rightarrow> state \<times> exc option" where
  "module_level w s =
     (case
        (case py_import ''tqdm'' (import_tqdm w) s of
           (s1, None) \<Rightarrow> (s1, None)
         | (s1, Some e) \<Rightarrow>
             if is_ImportError e then
               (let s2 = check_call [sys_executable w, ''-m'', ''pip'', ''install'', ''tqdm'']
                           (print ''Installing tqdm package...'' s1)
                in case pip_tqdm w of
                     Some e' \<Rightarrow> (print (''Error installing tqdm package: '' @ str_exc e') s2, None)
                   | None \<Rightarrow>
                       (case py_import ''tqdm'' (import_tqdm_again w) s2 of
                          (s3, Some e') \<Rightarrow>
                            (print (''Error installing tqdm package: '' @ str_exc e') s3, None)
                        | (s3, None) \<Rightarrow> (s3, None)))
             else (s1, Some e))
      of
        (s4, Some e) \<Rightarrow> (s4, Some e)
      | (s4, None) \<Rightarrow> os_makedirs (makedirs_at_import w) (MODELS_DIR w) s4)"

subsection \<open>\<^verbatim>\<open>download_model\<close>\<close>

text \<open>
  The handler of lines 98 to 104. It reads \<^verbatim>\<open>model_url\<close>, which is assigned after
  \<^verbatim>\<open>os.makedirs\<close>: \<open>url_bound\<close> tells whether the assignment was reached.
\<close>

definition download_model_except :: "bool \<Rightarrow> exc \<Rightarrow> state \<Rightarrow> state \<times> (exc + bool)" where
  "download_model_except url_bound e s =
     (let s1 = print (''Error downloading model: '' @ str_exc e) s in
      if py_in ''HTTP Error 404'' (str_exc e) then
        if url_bound then
          (print (''The model may have been moved or renamed. ''
                  @ ''Please check the repository for the latest model URLs.'')
             (print (''Model file not found at URL: '' @ model_url) s1),
           Inr False)
        else
          (s1, Inl (Exc UnboundLocalError
                     (''cannot access local variable '' @ [CHR 0x27] @ ''model_url'' @ [CHR 0x27]
                      @ '' where it is not associated with a value'')))
      else (s1, Inr False))"

text \<open>
  The result is \<open>Inr True\<close> or \<open>Inr False\<close> for the boolean returned, \<open>Inl e\<close> for an
  exception that leaves the function.
\<close>

definition download_model :: "world \<Rightarrow> state \<Rightarrow> state \<times> (exc + bool)" where
  "download_model w s =
     (if os_path_exists s (WHISPER_MODEL_PATH w) then
        (print (''Model already exists at: '' @ WHISPER_MODEL_PATH w) s, Inr True)
      else
        let s1 = print (''Downloading Whisper model ('' @ MODEL_SIZE @ ''.'' @ MODEL_LANG
                        @ '') from Hugging Face...'') s
        in case os_makedirs (makedirs_at_download w) (os_path_dirname (WHISPER_MODEL_PATH w)) s1 of
             (s2, Some e) \<Rightarrow> download_model_except False e s2
           | (s2, None) \<Rightarrow>
               let s3 = print (''Saving to: '' @ WHISPER_MODEL_PATH w)
                          (print (''Downloading from: '' @ model_url) s2);
                   s4 = s3\<lparr>net := net s3 @ [Request ''GET'' model_url None],
                           stdout := stdout s3 @ progress_output w\<rparr>
               in case urlretrieve w of
                    Retrieved body \<Rightarrow>
                      (print (''Model downloaded to: '' @ WHISPER_MODEL_PATH w)
                         (s4\<lparr>fs := (fs s4)(WHISPER_MODEL_PATH w \<mapsto> File body)\<rparr>),
                       Inr True)
                  | RetrieveFailed e partial \<Rightarrow>
                      download_model_except True e
                        (case partial of
                           None \<Rightarrow> s4
                         | Some b \<Rightarrow> s4\<lparr>fs := (fs s4)(WHISPER_MODEL_PATH w \<mapsto> File b)\<rparr>))"

subsection \<open>\<^verbatim>\<open>verify_model_download\<close>\<close>

definition verify_model_download :: "world \<Rightarrow> state \<Rightarrow> state \<times> bool" where
  "verify_model_download w s =
     (let s1 = s\<lparr>net := net s @ [Request ''HEAD'' model_url (Some 10)]\<rparr> in
      case urlopen_head w of
        HeadRaised e \<Rightarrow> (print (''Error verifying model URL: '' @ str_exc e) s1, False)
      | HeadResponse status content_length \<Rightarrow>
          if status = 200 then
            (case py_int content_length of
               Inl e \<Rightarrow> (print (''Error verifying model URL: '' @ str_exc e) s1, False)
             | Inr n \<Rightarrow>
                 (case true_div_mb_raises n of
                    Some e \<Rightarrow> (print (''Error verifying model URL: '' @ str_exc e) s1, False)
                  | None \<Rightarrow> (s1\<lparr>stdout := stdout s1 @ [ModelSizeLine n]\<rparr>, True)))
          else (print (''Model URL returned status code: '' @ show_int status) s1, False))"

subsection \<open>\<^verbatim>\<open>install_whisper\<close>\<close>

definition install_whisper :: "world \<Rightarrow> state \<Rightarrow> state \<times> (exc + bool)" where
  "install_whisper w s =
     (case py_import ''whisper'' (import_whisper w) s of
        (s1, None) \<Rightarrow> (print ''Whisper package is already installed'' s1, Inr True)
      | (s1, Some e) \<Rightarrow>
          if is_ImportError e then
            (let s2 = check_call [sys_executable w, ''-m'', ''pip'', ''install'', ''openai-whisper'']
                        (print ''Installing whisper package...'' s1)
             in case pip_whisper w of
                  None \<Rightarrow> (print ''Whisper package installed successfully'' s2, Inr True)
                | Some e' \<Rightarrow>
                    (print (''Error installing whisper package: '' @ str_exc e') s2, Inr False))
          else (s1, Inl e))"

subsection \<open>\<^verbatim>\<open>transcribe_audio\<close>\<close>

text \<open>The error document \<^verbatim>\<open>json.dumps({"error": msg})\<close>.\<close>

definition error_document :: "string \<Rightarrow> exc + string" where
  "error_document msg = json_dumps (PDict [(''error'', PStr msg)])"

text \<open>
  The result is \<open>Inr\<close> the JSON text returned, or \<open>Inl e\<close> for an exception that leaves
  the function. What the library itself prints or fetches while it loads its model and
  transcribes is not tracked.
\<close>

definition transcribe_audio :: "world \<Rightarrow> state \<Rightarrow> string \<Rightarrow> state \<times> (exc + string)" where
  "transcribe_audio w s audio =
     (if \<not> os_path_exists s audio then
        (s, error_document (''Audio file not found: '' @ audio))
      else
        case (if \<not> os_path_exists s (WHISPER_MODEL_PATH w) then download_model w s
              else (s, Inr True)) of
          (s1, Inl e) \<Rightarrow> (s1, Inl e)
        | (s1, Inr downloaded) \<Rightarrow>
            if \<not> downloaded then (s1, error_document ''Failed to download Whisper model'')
            else
              (case install_whisper w s1 of
                 (s2, Inl e) \<Rightarrow> (s2, Inl e)
               | (s2, Inr installed) \<Rightarrow>
                   if \<not> installed then (s2, error_document ''Failed to install Whisper package'')
                   else
                     (case py_import ''whisper'' (import_whisper_again w) s2 of
                        (s3, Some e) \<Rightarrow> (s3, Inl e)
                      | (s3, None) \<Rightarrow>
                          (let s4 = print (''Loading Whisper model: '' @ MODEL_SIZE) s3 in
                           case load_model w of
                             Some e \<Rightarrow>
                               (s4, error_document (''Transcription error: '' @ str_exc e))
                           | None \<Rightarrow>
                               (let s5 = print (''Transcribing audio: '' @ audio) s4 in
                                case transcribe w audio of
                                  Inl e \<Rightarrow>
                                    (s5, error_document (''Transcription error: '' @ str_exc e))
                                | Inr result \<Rightarrow>
                                    (case dict_index result ''text'' of
                                       Inl e \<Rightarrow>
                                         (s5, error_document
                                                (''Transcription error: '' @ str_exc e))
                                     | Inr text \<Rightarrow>
                                         (case json_dumps (PDict
                                                 [(''text'', text),
                                                  (''language'',
                                                     dict_get result ''language'' (PStr ''en'')),
                                                  (''segments'',
                                                     dict_get result ''segments'' (PList []))]) of
                                            Inl e \<Rightarrow>
                                              (s5, error_document
                                                     (''Transcription error: '' @ str_exc e))
                                          | Inr js \<Rightarrow> (s5, Inr js))))))))"

subsection \<open>The command line\<close>

text \<open>
  The parser \<^verbatim>\<open>main\<close> builds: a main parser with the option \<^verbatim>\<open>-h\<close>/\<^verbatim>\<open>--help\<close> and an optional
  subcommand stored as \<^verbatim>\<open>command\<close>; \<^verbatim>\<open>download\<close> with the flags \<^verbatim>\<open>--verbose\<close> and \<^verbatim>\<open>--verify\<close>;
  \<^verbatim>\<open>transcribe\<close> with one positional \<^verbatim>\<open>audio_path\<close>.

  \<^verbatim>\<open>argparse\<close> is modelled on plain command lines: every word is one of the four option
  strings written out in full, or does not begin with a dash. There it works as follows.
  A help option prints the help of the parser that meets it and exits 0 at once. An option
  a parser does not know, and a positional word it has no use for, are set aside, and
  rejected only when parsing ends (usage and an error on standard error, exit code 2).
  A first positional word that is not a subcommand is rejected at once, as is a missing
  \<^verbatim>\<open>audio_path\<close> at the end. On any other command line (abbreviated options, \<^verbatim>\<open>=\<close>, \<^verbatim>\<open>--\<close>,
  other words that begin with a dash) the outcome is the world's \<open>other_argv\<close>.
\<close>

definition is_help :: "string \<Rightarrow> bool" where
  "is_help t = (t = ''-h'' \<or> t = ''--help'')"

definition plain_word :: "string \<Rightarrow> bool" where
  "plain_word t =
     (is_help t \<or> t = ''--verbose'' \<or> t = ''--verify'' \<or> \<not> py_startswith t ''-'')"

definition usage_error :: parse_outcome where
  "usage_error = ParserExit 2 [] [UsageError]"

text \<open>The arguments: the flags seen so far, whether something was set aside, the rest.\<close>

fun parse_download :: "bool \<Rightarrow> bool \<Rightarrow> bool \<Rightarrow> string list \<Rightarrow> parse_outcome" where
  "parse_download vb vf extras [] =
     (if extras then usage_error
      else Parsed \<lparr>command = Some ''download'', verbose = Some vb, verify = Some vf,
                   audio_path = None\<rparr>)"
| "parse_download vb vf extras (t # rest) =
     (if is_help t then ParserExit 0 [ParserHelp ''download''] []
      else if t = ''--verbose'' then parse_download True vf extras rest
      else if t = ''--verify'' then parse_download vb True extras rest
      else parse_download vb vf True rest)"

fun parse_transcribe :: "string option \<Rightarrow> bool \<Rightarrow> string list \<Rightarrow> parse_outcome" where
  "parse_transcribe path extras [] =
     (case path of
        None \<Rightarrow> usage_error
      | Some p \<Rightarrow>
          if extras then usage_error
          else Parsed \<lparr>command = Some ''transcribe'', verbose = None, verify = None,
                       audio_path = Some p\<rparr>)"
| "parse_transcribe path extras (t # rest) =
     (if is_help t then ParserExit 0 [ParserHelp ''transcribe''] []
      else if py_startswith t ''-'' then parse_transcribe path True rest
      else case path of
             None \<Rightarrow> parse_transcribe (Some t) extras rest
           | Some p \<Rightarrow> parse_transcribe path True rest)"

text \<open>What the main parser had set aside is rejected after the subcommand has parsed.\<close>

definition reject_extras :: "bool \<Rightarrow> parse_outcome \<Rightarrow> parse_outcome" where
  "reject_extras extras r =
     (case r of
        Parsed ns \<Rightarrow> if extras then usage_error else Parsed ns
      | ParserExit code out err \<Rightarrow> ParserExit code out err)"

fun parse_main :: "bool \<Rightarrow> string list \<Rightarrow> parse_outcome" where
  "parse_main extras [] =
     (if extras then usage_error
      else Parsed \<lparr>command = None, verbose = None, verify = None, audio_path = None\<rparr>)"
| "parse_main extras (t # rest) =
     (if is_help t then ParserExit 0 [ParserHelp ''''] []
      else if py_startswith t ''-'' then parse_main True rest
      else if t = ''download'' then reject_extras extras (parse_download False False False rest)
      else if t = ''transcribe'' then reject_extras extras (parse_transcribe None False rest)
      else usage_error)"

definition parse_args :: "world \<Rightarrow> string list \<Rightarrow> parse_outcome" where
  "parse_args w argv = (if list_all plain_word argv then parse_main False argv else other_argv w argv)"

subsection \<open>\<^verbatim>\<open>main\<close>\<close>

text \<open>
  Lines 192 to 206, the dispatch on the namespace. \<^verbatim>\<open>hasattr(args, 'verify') and args.verify\<close>
  is \<open>verify args = Some True\<close>. Reading \<^verbatim>\<open>args.audio_path\<close> where the namespace has none would
  raise; \<^verbatim>\<open>argparse\<close> never returns such a namespace for \<^verbatim>\<open>transcribe\<close>.
\<close>

definition dispatch :: "world \<Rightarrow> state \<Rightarrow> namespace \<Rightarrow> state \<times> outcome" where
  "dispatch w s args =
     (if command args = Some ''download'' then
        (case (if verify args = Some True then verify_model_download w s else (s, True)) of
           (s1, reachable) \<Rightarrow>
             if \<not> reachable then
               (print ''Model URL verification failed. Aborting download.'' s1, Exit 1)
             else
               (case download_model w s1 of
                  (s2, Inl e) \<Rightarrow> (s2, Uncaught e)
                | (s2, Inr success) \<Rightarrow> (s2, Exit (if success then 0 else 1))))
      else if command args = Some ''transcribe'' then
        (case audio_path args of
           None \<Rightarrow>
             (s, Uncaught (Exc AttributeError
                    (([CHR 0x27] @ ''Namespace'' @ [CHR 0x27]) @ '' object has no attribute ''
                     @ ([CHR 0x27] @ ''audio_path'' @ [CHR 0x27]))))
         | Some p \<Rightarrow>
             (case transcribe_audio w s p of
                (s1, Inl e) \<Rightarrow> (s1, Uncaught e)
              | (s1, Inr result) \<Rightarrow> (print result s1, Exit 0)))
      else (s\<lparr>stdout := stdout s @ [ParserHelp '''']\<rparr>, Exit 1))"

definition main :: "world \<Rightarrow> state \<Rightarrow> string list \<Rightarrow> state \<times> outcome" where
  "main w s argv =
     (case parse_args w argv of
        ParserExit code out err \<Rightarrow>
          (s\<lparr>stdout := stdout s @ out, stderr := stderr s @ err\<rparr>, Exit code)
      | Parsed args \<Rightarrow> dispatch w s args)"

subsection \<open>Running the script\<close>

text \<open>\<^verbatim>\<open>python simple_whisper_solution.py argv\<close>: the module level, then \<^verbatim>\<open>main()\<close>.\<close>

definition script :: "world \<Rightarrow> state \<Rightarrow> string list \<Rightarrow> state \<times> outcome" where
  "script w s argv =
     (case module_level w s of
        (s1, Some e) \<Rightarrow> (s1, Uncaught e)
      | (s1, None) \<Rightarrow> main w s1 argv)"

subsection \<open>Sample worlds\<close>

text \<open>
  A machine where everything works: \<^verbatim>\<open>tqdm\<close> and \<^verbatim>\<open>whisper\<close> are installed, the server
  answers, and the library is a stub that returns \<^verbatim>\<open>{"text": "hello", "language": "en"}\<close>.
\<close>

definition sample_world :: world where
  "sample_world =
     \<lparr>app_data_dir = ''/home/u/.fethr'',
      sys_executable = ''/usr/bin/python3'',
      import_tqdm = None, pip_tqdm = None, import_tqdm_again = None,
      makedirs_at_import = None, makedirs_at_download = None,
      progress_output = [],
      urlretrieve = Retrieved ''ggml'',
      urlopen_head = HeadResponse 200 (Some ''77691713''),
      import_whisper = None, pip_whisper = None, import_whisper_again = None,
      load_model = None,
      transcribe = (\<lambda>p. Inr [(''text'', PStr ''hello''), (''language'', PStr ''en'')]),
      other_argv = (\<lambda>argv. usage_error)\<rparr>"

text \<open>An empty machine, and one that holds an audio file and the model file.\<close>

definition empty_state :: state where
  "empty_state =
     \<lparr>fs = Map.empty, stdout = [], stderr = [], net = [], procs = [], sys_modules = {}\<rparr>"

definition ready_state :: state where
  "ready_state =
     empty_state\<lparr>fs := [''/home/u/.fethr/models'' \<mapsto> Dir,
                         ''/home/u/.fethr/models/ggml-tiny.en.bin'' \<mapsto> File ''ggml'',
                         ''a.wav'' \<mapsto> File ''RIFF'']\<rparr>"

text \<open>
  Two machines where \<^verbatim>\<open>whisper\<close> cannot be imported. On the first it is not installed,
  \<^verbatim>\<open>pip\<close> reports success, and the running interpreter still does not find the module. On the
  second it is installed, and importing it fails in a native library.
\<close>

definition no_module_named_whisper :: exc where
  "no_module_named_whisper =
     Exc ImportError (''No module named '' @ [CHR 0x27] @ ''whisper'' @ [CHR 0x27])"

definition install_without_effect_world :: world where
  "install_without_effect_world =
     sample_world\<lparr>import_whisper := Some no_module_named_whisper,
                    import_whisper_again := Some no_module_named_whisper\<rparr>"

definition broken_library_world :: world where
  "broken_library_world =
     sample_world\<lparr>import_whisper :=
       Some (Exc (OtherError ''OSError'') ''libtorch_cpu.so: cannot open shared object file'')\<rparr>"

text \<open>A server that no longer has the model, and one that does not answer.\<close>

definition not_found_world :: world where
  "not_found_world =
     sample_world\<lparr>urlretrieve :=
       RetrieveFailed (Exc (OtherError ''HTTPError'') ''HTTP Error 404: Not Found'') None\<rparr>"

definition unreachable_world :: world where
  "unreachable_world =
     sample_world\<lparr>urlopen_head :=
       HeadRaised (Exc (OtherError ''URLError'') ''<urlopen error timed out>'')\<rparr>"

section \<open>Properties\<close>

subsection \<open>Auxiliary facts\<close>

text \<open>The definitions that evaluate the sample machines.\<close>

lemmas sample_defs =
  sample_world_def ready_state_def empty_state_def os_path_exists_def WHISPER_MODEL_PATH_def
  MODELS_DIR_def APP_DATA_DIR_def os_path_join_def os_path_dirname_def py_endswith_def
  MODEL_SIZE_def MODEL_LANG_def WHISPER_MODEL_URL_def model_url_def print_def

lemma error_document_text:
  \<open>error_document msg = Inr (''{"error": '' @ json_string msg @ ''}'')\<close>
  by (simp add: error_document_def json_string_def json_escape_char_def)

lemma model_url_eq: "model_url = WHISPER_MODEL_URL"
  by (simp add: model_url_def WHISPER_MODEL_URL_def)

lemma parse_transcribe_word:
  "\<not> py_startswith audio ''-'' \<Longrightarrow>
   parse_args w [''transcribe'', audio] =
     Parsed \<lparr>command = Some ''transcribe'', verbose = None, verify = None, audio_path = Some audio\<rparr>"
  by (auto simp add: parse_args_def plain_word_def is_help_def reject_extras_def)

subsection \<open>A missing audio file\<close>

text \<open>
  Claim C2. If the audio path does not exist, \<^verbatim>\<open>transcribe_audio\<close> returns the document
  \<^verbatim>\<open>{"error": "Audio file not found: <path>"}\<close> and leaves the state as it found it: no
  request, no subprocess, no file and no output, hence no attempt to download the model or to
  install the library. The \<^verbatim>\<open>transcribe\<close> command then prints that document and exits 0,
  whether it is reached from a namespace or from the command line
  \<^verbatim>\<open>transcribe <path>\<close> (for a path not starting with a dash, which \<^verbatim>\<open>argparse\<close> would read as an
  option).
\<close>

theorem C2_missing_audio_fails_fast:
  \<open>\<not> os_path_exists s audio \<Longrightarrow>
     transcribe_audio w s audio =
       (s, Inr (''{"error": '' @ json_string (''Audio file not found: '' @ audio) @ ''}''))
     \<and> dispatch w s \<lparr>command = Some ''transcribe'', verbose = vb, verify = vf,
                      audio_path = Some audio\<rparr> =
         (print (''{"error": '' @ json_string (''Audio file not found: '' @ audio) @ ''}'') s, Exit 0)
     \<and> (\<not> py_startswith audio ''-'' \<longrightarrow>
          main w s [''transcribe'', audio] =
            (print (''{"error": '' @ json_string (''Audio file not found: '' @ audio) @ ''}'') s,
             Exit 0))\<close>
proof -
  assume missing: "\<not> os_path_exists s audio"
  have t: \<open>transcribe_audio w s audio =
       (s, Inr (''{"error": '' @ json_string (''Audio file not found: '' @ audio) @ ''}''))\<close>
    using missing by (simp add: transcribe_audio_def error_document_text)
  have d: \<open>dispatch w s \<lparr>command = Some ''transcribe'', verbose = vb', verify = vf',
                      audio_path = Some audio\<rparr> =
         (print (''{"error": '' @ json_string (''Audio file not found: '' @ audio) @ ''}'') s, Exit 0)\<close>
    for vb' vf'
    by (simp add: dispatch_def t)
  have m: \<open>main w s [''transcribe'', audio] =
            (print (''{"error": '' @ json_string (''Audio file not found: '' @ audio) @ ''}'') s,
             Exit 0)\<close> if "\<not> py_startswith audio ''-''"
    using that by (simp add: main_def parse_transcribe_word d)
  show ?thesis using t d m by blast
qed

text \<open>The claim at work: the sample machine has no \<^verbatim>\<open>b.wav\<close>.\<close>

theorem C2_missing_audio_witness:
  \<open>\<not> os_path_exists ready_state ''b.wav''
   \<and> transcribe_audio sample_world ready_state ''b.wav'' =
       (ready_state, Inr ''{"error": "Audio file not found: b.wav"}'')
   \<and> main sample_world ready_state [''transcribe'', ''b.wav''] =
       (print ''{"error": "Audio file not found: b.wav"}'' ready_state, Exit 0)\<close>
proof -
  have h: "\<not> os_path_exists ready_state ''b.wav''"
    by (simp add: os_path_exists_def ready_state_def empty_state_def)
  have j: \<open>''{"error": '' @ json_string (''Audio file not found: '' @ ''b.wav'') @ ''}''
           = ''{"error": "Audio file not found: b.wav"}''\<close>
    by (simp add: json_string_def json_escape_char_def)
  show ?thesis
    using h C2_missing_audio_fails_fast [OF h, of sample_world None None] j by simp
qed


subsection \<open>The cached model\<close>

lemma download_model_success_leaves_file:
  "download_model w s = (s1, Inr True) \<Longrightarrow> os_path_exists s1 (WHISPER_MODEL_PATH w)"
  by (auto simp add: download_model_def download_model_except_def os_path_exists_def print_def Let_def
      split: if_splits prod.splits option.splits retrieve_outcome.splits)

lemma os_makedirs_prints_nothing:
  "os_makedirs refusal p t = (t', r) \<Longrightarrow> stdout t' = stdout t"
  by (auto simp add: os_makedirs_def split: option.splits node.splits)

lemma download_model_except_appends:
  "\<exists>rest. stdout (fst (download_model_except b e t)) = stdout t @ rest"
  by (simp add: download_model_except_def print_def Let_def)

lemma download_model_absent_starts_download:
  assumes absent: "\<not> os_path_exists s (WHISPER_MODEL_PATH w)"
  shows "\<exists>rest. stdout (fst (download_model w s)) =
     stdout s @ Line ''Downloading Whisper model (tiny.en) from Hugging Face...'' # rest"
proof -
  let ?s1 = "print ''Downloading Whisper model (tiny.en) from Hugging Face...'' s"
  obtain s2 r where mk:
    "os_makedirs (makedirs_at_download w) (os_path_dirname (WHISPER_MODEL_PATH w)) ?s1 = (s2, r)"
    by (cases "os_makedirs (makedirs_at_download w) (os_path_dirname (WHISPER_MODEL_PATH w)) ?s1")
  have out2: "stdout s2 =
      stdout s @ [Line ''Downloading Whisper model (tiny.en) from Hugging Face...'']"
    using os_makedirs_prints_nothing [OF mk] by (simp add: print_def)
  show ?thesis
  proof (cases r)
    case (Some e)
    have "download_model w s = download_model_except False e s2"
      using absent mk Some by (simp add: download_model_def MODEL_SIZE_def MODEL_LANG_def)
    then show ?thesis
      using download_model_except_appends [of False e s2] out2 by auto
  next
    case None
    let ?s4 = "s2\<lparr>net := net s2 @ [Request ''GET'' model_url None],
                  stdout := stdout s2 @ [Line (''Downloading from: '' @ model_url),
                     Line (''Saving to: '' @ WHISPER_MODEL_PATH w)] @ progress_output w\<rparr>"
    show ?thesis
    proof (cases "urlretrieve w")
      case (Retrieved body)
      have "stdout (fst (download_model w s)) =
          stdout ?s4 @ [Line (''Model downloaded to: '' @ WHISPER_MODEL_PATH w)]"
        using absent mk None Retrieved
        by (simp add: download_model_def MODEL_SIZE_def MODEL_LANG_def print_def)
      then show ?thesis using out2 by simp
    next
      case (RetrieveFailed e partial)
      define t where "t =
        (case partial of
           None \<Rightarrow> ?s4
         | Some b \<Rightarrow> ?s4\<lparr>fs := (fs ?s4)(WHISPER_MODEL_PATH w \<mapsto> File b)\<rparr>)"
      have t: "download_model w s = download_model_except True e t" "stdout t = stdout ?s4"
        using absent mk None RetrieveFailed unfolding t_def
        by (cases partial;
            simp add: download_model_def MODEL_SIZE_def MODEL_LANG_def print_def)+
      show ?thesis
        using download_model_except_appends [of True e t] t out2 by auto
    qed
  qed
qed

lemma download_model_absent_not_cached:
  assumes "\<not> os_path_exists s (WHISPER_MODEL_PATH w)"
  shows "download_model w s \<noteq>
    (print (''Model already exists at: '' @ WHISPER_MODEL_PATH w) s, Inr True)"
proof
  assume "download_model w s =
    (print (''Model already exists at: '' @ WHISPER_MODEL_PATH w) s, Inr True)"
  then have "stdout (fst (download_model w s)) =
      stdout s @ [Line (''Model already exists at: '' @ WHISPER_MODEL_PATH w)]"
    by (simp add: print_def)
  then show False
    using download_model_absent_starts_download [OF assms] by auto
qed

text \<open>
  Claim C3. If anything exists at the model path, whatever it is (a directory, a file of
  any bytes), \<^verbatim>\<open>download_model\<close> returns success at once: it prints one line and changes
  nothing else, so it makes no request and reads no content. And after any call that
  returned success, a second call returns success with no further request and no change to
  the file system: downloading twice is idempotent. Where nothing exists at the path, the
  call does not return in this way: it sets out to download. So the existence of the path
  is the only thing that decides whether the model counts as present.
\<close>

theorem C3_download_model_cached:
  "(fs s (WHISPER_MODEL_PATH w) = Some content \<longrightarrow>
      download_model w s =
        (print (''Model already exists at: '' @ WHISPER_MODEL_PATH w) s, Inr True))
   \<and> (download_model w s = (s1, Inr True) \<longrightarrow>
        download_model w s1 =
          (print (''Model already exists at: '' @ WHISPER_MODEL_PATH w) s1, Inr True)
        \<and> net (fst (download_model w s1)) = net s1
        \<and> fs (fst (download_model w s1)) = fs s1)
   \<and> (fs s (WHISPER_MODEL_PATH w) = None \<longrightarrow>
        download_model w s \<noteq>
          (print (''Model already exists at: '' @ WHISPER_MODEL_PATH w) s, Inr True))"
proof -
  have cached: "download_model w t =
      (print (''Model already exists at: '' @ WHISPER_MODEL_PATH w) t, Inr True)"
    if "os_path_exists t (WHISPER_MODEL_PATH w)" for t
    using that by (simp add: download_model_def)
  have first: "fs s (WHISPER_MODEL_PATH w) = Some content \<longrightarrow>
      download_model w s =
        (print (''Model already exists at: '' @ WHISPER_MODEL_PATH w) s, Inr True)"
    by (simp add: cached os_path_exists_def)
  have again: "download_model w s1 =
          (print (''Model already exists at: '' @ WHISPER_MODEL_PATH w) s1, Inr True)
        \<and> net (fst (download_model w s1)) = net s1
        \<and> fs (fst (download_model w s1)) = fs s1"
    if "download_model w s = (s1, Inr True)"
    using cached [OF download_model_success_leaves_file [OF that]] by (simp add: print_def)
  have absent: "download_model w s \<noteq>
          (print (''Model already exists at: '' @ WHISPER_MODEL_PATH w) s, Inr True)"
    if "fs s (WHISPER_MODEL_PATH w) = None"
    using that download_model_absent_not_cached [of s w] by (simp add: os_path_exists_def)
  show ?thesis using first again absent by blast
qed


text \<open>
  On the sample machine: with the model present, and from an empty disk, where the first call
  makes the one GET request and the second adds none.
\<close>

theorem C3_download_model_cached_witness:
  "fs ready_state (WHISPER_MODEL_PATH sample_world) = Some (File ''ggml'')
   \<and> download_model sample_world ready_state =
       (print ''Model already exists at: /home/u/.fethr/models/ggml-tiny.en.bin'' ready_state,
        Inr True)
   \<and> net (fst (download_model sample_world empty_state)) =
       [Request ''GET''
          ''https://huggingface.co/ggerganov/whisper.cpp/resolve/main/ggml-tiny.en.bin'' None]
   \<and> net (fst (download_model sample_world (fst (download_model sample_world empty_state)))) =
       [Request ''GET''
          ''https://huggingface.co/ggerganov/whisper.cpp/resolve/main/ggml-tiny.en.bin'' None]
   \<and> download_model sample_world empty_state \<noteq>
       (print ''Model already exists at: /home/u/.fethr/models/ggml-tiny.en.bin'' empty_state,
        Inr True)"
proof -
  let ?s1 = "fst (download_model sample_world empty_state)"
  have present: "fs ready_state (WHISPER_MODEL_PATH sample_world) = Some (File ''ggml'')"
    by (simp add: sample_defs)
  have empty_disk: "fs empty_state (WHISPER_MODEL_PATH sample_world) = None"
    by (simp add: empty_state_def)
  have path: "WHISPER_MODEL_PATH sample_world = ''/home/u/.fethr/models/ggml-tiny.en.bin''"
    by (simp add: sample_defs)
  have fetched: "snd (download_model sample_world empty_state) = Inr True"
    and requests: "net ?s1 =
       [Request ''GET''
          ''https://huggingface.co/ggerganov/whisper.cpp/resolve/main/ggml-tiny.en.bin'' None]"
    by (simp_all add: download_model_def os_makedirs_def sample_defs)
  have first: "download_model sample_world empty_state = (?s1, Inr True)"
    using fetched by (simp add: prod_eq_iff)
  note on_disk = C3_download_model_cached [of ready_state sample_world "File ''ggml''"]
  note from_empty = C3_download_model_cached [of empty_state sample_world _ ?s1]
  have a: "download_model sample_world ready_state =
       (print ''Model already exists at: /home/u/.fethr/models/ggml-tiny.en.bin'' ready_state,
        Inr True)"
    using on_disk [THEN conjunct1, THEN mp, OF present] path by simp
  have b: "net (fst (download_model sample_world ?s1)) = net ?s1"
    by (rule from_empty
        [THEN conjunct2, THEN conjunct1, THEN mp, OF first, THEN conjunct2, THEN conjunct1])
  have c: "download_model sample_world empty_state \<noteq>
       (print ''Model already exists at: /home/u/.fethr/models/ggml-tiny.en.bin'' empty_state,
        Inr True)"
    using from_empty [THEN conjunct2, THEN conjunct2, THEN mp, OF empty_disk] path by simp
  show ?thesis
    using present a b c requests by simp
qed

subsection \<open>The reachability check\<close>

text \<open>
  Claim C10. If the HEAD request is answered with status 200 and no Content-Length header,
  \<^verbatim>\<open>verify_model_download\<close> returns failure: \<^verbatim>\<open>int(None)\<close> raises \<^verbatim>\<open>TypeError\<close>, and the handler
  prints it and returns \<^verbatim>\<open>False\<close>.
\<close>

theorem C10_no_content_length_is_failure:
  "urlopen_head w = HeadResponse 200 None \<Longrightarrow>
     snd (verify_model_download w s) = False
     \<and> (\<exists>e. py_int None = Inl e \<and> exc_class_of e = TypeError
          \<and> fst (verify_model_download w s) =
              print (''Error verifying model URL: '' @ str_exc e)
                (s\<lparr>net := net s @ [Request ''HEAD'' WHISPER_MODEL_URL (Some 10)]\<rparr>))"
  by (simp add: verify_model_download_def py_int_def model_url_eq)

text \<open>The sample server, with the header removed.\<close>

theorem C10_no_content_length_witness:
  "urlopen_head (sample_world\<lparr>urlopen_head := HeadResponse 200 None\<rparr>) = HeadResponse 200 None
   \<and> snd (verify_model_download (sample_world\<lparr>urlopen_head := HeadResponse 200 None\<rparr>)
            empty_state) = False"
  using C10_no_content_length_is_failure
    [of "sample_world\<lparr>urlopen_head := HeadResponse 200 None\<rparr>" empty_state]
  by simp

text \<open>A number of at most 300 digits divided by \<open>2^20\<close> fits a float.\<close>

lemma digits_foldl_bound:
  "list_all is_digit v \<Longrightarrow>
   foldl (\<lambda>a c. 10 * a + (of_char c - 48)) (a::nat) v < (a + 1) * 10 ^ length v"
proof (induction v arbitrary: a)
  case Nil
  then show ?case by simp
next
  case (Cons c cs)
  have d: "(of_char c :: nat) - 48 \<le> 9"
    using Cons.prems by (auto simp add: is_digit_def)
  have "foldl (\<lambda>a c. 10 * a + (of_char c - 48)) (10 * a + (of_char c - 48)) cs
          < (10 * a + (of_char c - 48) + 1) * 10 ^ length cs"
    using Cons.IH Cons.prems by simp
  also have "\<dots> \<le> (10 * a + 10) * 10 ^ length cs"
    using d by (intro mult_right_mono) simp_all
  also have "\<dots> = (a + 1) * 10 ^ length (c # cs)"
    by (simp add: algebra_simps)
  finally show ?case by simp
qed

lemma digits_value_bound:
  "list_all is_digit v \<Longrightarrow> digits_value v < 10 ^ length v"
  using digits_foldl_bound [of v 0] by (simp add: digits_value_def)

lemma short_digits_fit_a_float:
  assumes "list_all is_digit v" and "length v \<le> 300"
  shows "true_div_mb_raises (int (digits_value v)) = None"
proof -
  have "digits_value v < 10 ^ length v"
    using assms(1) by (rule digits_value_bound)
  also have "(10::nat) ^ length v \<le> 10 ^ 300"
    using assms(2) by (intro power_increasing) simp_all
  finally have "int (digits_value v) < 10 ^ 300"
    by (metis of_nat_less_iff of_nat_numeral of_nat_power)
  moreover have "(10::int) ^ 300 < 2 ^ 1044 - 2 ^ 990"
    by simp
  ultimately show ?thesis
    by (simp add: true_div_mb_raises_def)
qed

text \<open>
  Claim C6. \<^verbatim>\<open>verify_model_download\<close> makes exactly one request, a HEAD request to the model
  URL with a timeout of 10 seconds. If the answer is status 200 with a Content-Length
  header (a string of decimal digits, here of at most 300 of them), it returns success and
  the size line it prints is computed from the number in that header. If the request raises,
  as it does on a timeout, or if the status is not 200, it returns failure.
\<close>

theorem C6_verify_model_download:
  "net (fst (verify_model_download w s)) = net s @ [Request ''HEAD'' WHISPER_MODEL_URL (Some 10)]
   \<and> (urlopen_head w = HeadResponse 200 (Some v) \<and> v \<noteq> [] \<and> list_all is_digit v
        \<and> length v \<le> 300 \<longrightarrow>
        verify_model_download w s =
          (s\<lparr>net := net s @ [Request ''HEAD'' WHISPER_MODEL_URL (Some 10)],
             stdout := stdout s @ [ModelSizeLine (int (digits_value v))]\<rparr>, True))
   \<and> (urlopen_head w = HeadRaised e \<longrightarrow> snd (verify_model_download w s) = False)
   \<and> (urlopen_head w = HeadResponse status cl \<and> status \<noteq> 200 \<longrightarrow>
        snd (verify_model_download w s) = False)"
proof -
  have request:
    "net (fst (verify_model_download w s)) = net s @ [Request ''HEAD'' WHISPER_MODEL_URL (Some 10)]"
    by (simp add: verify_model_download_def model_url_eq print_def Let_def
        split: head_outcome.splits sum.splits option.splits)
  have ok: "verify_model_download w s =
          (s\<lparr>net := net s @ [Request ''HEAD'' WHISPER_MODEL_URL (Some 10)],
             stdout := stdout s @ [ModelSizeLine (int (digits_value v))]\<rparr>, True)"
    if "urlopen_head w = HeadResponse 200 (Some v)" "v \<noteq> []" "list_all is_digit v"
       "length v \<le> 300"
    using that short_digits_fit_a_float [of v]
    by (simp add: verify_model_download_def model_url_eq py_int_def)
  have raised: "snd (verify_model_download w s) = False" if "urlopen_head w = HeadRaised e"
    using that by (simp add: verify_model_download_def)
  have status: "snd (verify_model_download w s) = False"
    if "urlopen_head w = HeadResponse status cl" "status \<noteq> 200"
    using that by (simp add: verify_model_download_def)
  show ?thesis using request ok raised status by blast
qed

text \<open>
  The sample server reports 77691713 bytes; then a server that times out, and one that
  answers 204.
\<close>

theorem C6_verify_model_download_witness:
  "verify_model_download sample_world empty_state =
     (empty_state\<lparr>net := [Request ''HEAD''
          ''https://huggingface.co/ggerganov/whisper.cpp/resolve/main/ggml-tiny.en.bin'' (Some 10)],
        stdout := [ModelSizeLine 77691713]\<rparr>, True)
   \<and> snd (verify_model_download
        (sample_world\<lparr>urlopen_head := HeadRaised (Exc (OtherError ''TimeoutError'') ''timed out'')\<rparr>)
        empty_state) = False
   \<and> snd (verify_model_download
        (sample_world\<lparr>urlopen_head := HeadResponse 204 None\<rparr>) empty_state) = False"
proof -
  have head: "urlopen_head sample_world = HeadResponse 200 (Some ''77691713'')"
    by (simp add: sample_world_def)
  have digits: "''77691713'' \<noteq> [] \<and> list_all is_digit ''77691713'' \<and> length ''77691713'' \<le> 300"
    by (simp add: is_digit_def)
  have size: "int (digits_value ''77691713'') = 77691713"
    by (simp add: digits_value_def)
  have url: "WHISPER_MODEL_URL =
      ''https://huggingface.co/ggerganov/whisper.cpp/resolve/main/ggml-tiny.en.bin''"
    by (simp add: sample_defs)
  have a: "verify_model_download sample_world empty_state =
     (empty_state\<lparr>net := [Request ''HEAD''
          ''https://huggingface.co/ggerganov/whisper.cpp/resolve/main/ggml-tiny.en.bin'' (Some 10)],
        stdout := [ModelSizeLine 77691713]\<rparr>, True)"
    using C6_verify_model_download [of sample_world empty_state "''77691713''"] head digits size url
    by (simp add: empty_state_def)
  have b: "snd (verify_model_download
        (sample_world\<lparr>urlopen_head := HeadRaised (Exc (OtherError ''TimeoutError'') ''timed out'')\<rparr>)
        empty_state) = False"
    using C6_verify_model_download
      [of "sample_world\<lparr>urlopen_head := HeadRaised (Exc (OtherError ''TimeoutError'') ''timed out'')\<rparr>"
          empty_state _ "Exc (OtherError ''TimeoutError'') ''timed out''"]
    by simp
  have c: "snd (verify_model_download
        (sample_world\<lparr>urlopen_head := HeadResponse 204 None\<rparr>) empty_state) = False"
    using C6_verify_model_download
      [of "sample_world\<lparr>urlopen_head := HeadResponse 204 None\<rparr>" empty_state _ _ 204 None]
    by simp
  show ?thesis using a b c by blast
qed

subsection \<open>The \<^verbatim>\<open>--verbose\<close> flag\<close>

lemma dispatch_ignores_verbose:
  "dispatch w s (args\<lparr>verbose := a\<rparr>) = dispatch w s (args\<lparr>verbose := b\<rparr>)"
  by (simp add: dispatch_def)

lemma reject_extras_False: "reject_extras False r = r"
  by (cases r) (simp_all add: reject_extras_def)

lemma parse_download_without_verbose:
  "(case parse_download vb vf extras rest of
      ParserExit code out err \<Rightarrow>
        (s\<lparr>stdout := stdout s @ out, stderr := stderr s @ err\<rparr>, Exit code)
    | Parsed args \<Rightarrow> dispatch w s args)
   = (case parse_download vb' vf extras (filter (\<lambda>t. t \<noteq> ''--verbose'') rest) of
        ParserExit code out err \<Rightarrow>
          (s\<lparr>stdout := stdout s @ out, stderr := stderr s @ err\<rparr>, Exit code)
      | Parsed args \<Rightarrow> dispatch w s args)"
proof (induction rest arbitrary: vb vb' vf extras)
  case Nil
  show ?case by (simp add: dispatch_def)
next
  case (Cons t rest)
  show ?case
  proof (cases "t = ''--verbose''")
    case True
    then show ?thesis using Cons.IH [of True vf extras vb'] by (simp add: is_help_def)
  next
    case False
    then show ?thesis
      using Cons.IH [of vb True extras vb'] Cons.IH [of vb vf True vb'] by simp
  qed
qed

lemma plain_filter: "list_all plain_word rest \<Longrightarrow> list_all plain_word (filter P rest)"
  by (induction rest) simp_all

lemma plain_download: "plain_word ''download''"
  by (simp add: plain_word_def)

lemma main_download:
  "list_all plain_word rest \<Longrightarrow>
   main w s (''download'' # rest) =
     (case parse_download False False False rest of
        ParserExit code out err \<Rightarrow>
          (s\<lparr>stdout := stdout s @ out, stderr := stderr s @ err\<rparr>, Exit code)
      | Parsed args \<Rightarrow> dispatch w s args)"
  by (simp add: main_def parse_args_def plain_download is_help_def reject_extras_False)

text \<open>
  Claim C8. \<^verbatim>\<open>--verbose\<close> does not alter the \<^verbatim>\<open>download\<close> command. Two runs from the same state
  in the same world end in the same state (same output, same files, same requests) with the
  same exit code when their namespaces differ only in \<^verbatim>\<open>verbose\<close>, and when their plain
  command lines \<^verbatim>\<open>download ...\<close> differ only in occurrences of \<^verbatim>\<open>--verbose\<close>.
\<close>

theorem C8_verbose_changes_nothing:
  "dispatch w s (args\<lparr>verbose := a\<rparr>) = dispatch w s (args\<lparr>verbose := b\<rparr>)
   \<and> (list_all plain_word rest \<longrightarrow>
        main w s (''download'' # rest) =
        main w s (''download'' # filter (\<lambda>t. t \<noteq> ''--verbose'') rest))"
proof -
  have "main w s (''download'' # rest) =
        main w s (''download'' # filter (\<lambda>t. t \<noteq> ''--verbose'') rest)"
    if "list_all plain_word rest"
    using that parse_download_without_verbose
      [where vb = False and vf = False and extras = False and vb' = False and rest = rest]
    by (simp add: main_download plain_filter)
  then show ?thesis using dispatch_ignores_verbose by blast
qed

text \<open>\<^verbatim>\<open>download --verbose --verify\<close> against \<^verbatim>\<open>download --verify\<close> on the sample machine.\<close>

theorem C8_verbose_changes_nothing_witness:
  "list_all plain_word [''--verbose'', ''--verify'']
   \<and> main sample_world empty_state [''download'', ''--verbose'', ''--verify''] =
       main sample_world empty_state [''download'', ''--verify'']"
proof -
  have plain: "list_all plain_word [''--verbose'', ''--verify'']"
    by (simp add: plain_word_def)
  show ?thesis
    using plain C8_verbose_changes_nothing [of sample_world empty_state _ _ _ "[''--verbose'', ''--verify'']"]
    by simp
qed

subsection \<open>No subcommand, unknown subcommand\<close>

text \<open>
  Claim C7 says that an invocation with no subcommand or with unrecognized input prints the
  usage help and exits 1. For an unrecognized subcommand it does not: \<^verbatim>\<open>argparse\<close> rejects
  \<^verbatim>\<open>foo\<close> inside \<^verbatim>\<open>parse_args\<close>, before \<^verbatim>\<open>main\<close> dispatches anything, and ends the process with
  exit code 2 and nothing on standard output.
\<close>

theorem C7_unknown_subcommand_counterexample:
  "snd (main sample_world empty_state [''foo'']) = Exit 2
   \<and> snd (main sample_world empty_state [''foo'']) \<noteq> Exit 1
   \<and> stdout (fst (main sample_world empty_state [''foo''])) = []"
  by (simp add: main_def parse_args_def plain_word_def is_help_def usage_error_def empty_state_def)

text \<open>A word that does not begin with a dash is not a help option.\<close>

lemma word_is_not_help: "\<not> py_startswith t ''-'' \<Longrightarrow> \<not> is_help t"
  by (auto simp add: is_help_def)

text \<open>
  Claim C7, amended. With no subcommand (the empty command line, and any namespace whose
  command is neither \<^verbatim>\<open>download\<close> nor \<^verbatim>\<open>transcribe\<close>) \<^verbatim>\<open>main\<close> prints the help of the main
  parser on standard output and exits 1. A plain command line whose first word is not a
  subcommand is rejected by \<^verbatim>\<open>argparse\<close> itself: usage and an error on standard error,
  nothing on standard output, exit code 2.
\<close>

theorem C7_no_subcommand_or_unknown_word:
  "main w s [] = (s\<lparr>stdout := stdout s @ [ParserHelp '''']\<rparr>, Exit 1)
   \<and> (command args \<noteq> Some ''download'' \<and> command args \<noteq> Some ''transcribe'' \<longrightarrow>
        dispatch w s args = (s\<lparr>stdout := stdout s @ [ParserHelp '''']\<rparr>, Exit 1))
   \<and> (\<not> py_startswith t ''-'' \<and> t \<noteq> ''download'' \<and> t \<noteq> ''transcribe''
        \<and> list_all plain_word rest \<longrightarrow>
        main w s (t # rest) = (s\<lparr>stderr := stderr s @ [UsageError]\<rparr>, Exit 2))"
proof -
  have none: "main w s [] = (s\<lparr>stdout := stdout s @ [ParserHelp '''']\<rparr>, Exit 1)"
    by (simp add: main_def parse_args_def dispatch_def)
  have other: "dispatch w s args = (s\<lparr>stdout := stdout s @ [ParserHelp '''']\<rparr>, Exit 1)"
    if "command args \<noteq> Some ''download''" "command args \<noteq> Some ''transcribe''"
    using that by (simp add: dispatch_def)
  have unknown: "main w s (t # rest) = (s\<lparr>stderr := stderr s @ [UsageError]\<rparr>, Exit 2)"
    if "\<not> py_startswith t ''-''" "t \<noteq> ''download''" "t \<noteq> ''transcribe''"
       "list_all plain_word rest"
    using that word_is_not_help [of t]
    by (simp add: main_def parse_args_def plain_word_def usage_error_def)
  show ?thesis using none other unknown by blast
qed

text \<open>The empty command line, the empty namespace, and \<^verbatim>\<open>foo --verify\<close>.\<close>

theorem C7_no_subcommand_or_unknown_word_witness:
  "main sample_world empty_state [] = (empty_state\<lparr>stdout := [ParserHelp '''']\<rparr>, Exit 1)
   \<and> dispatch sample_world empty_state
        \<lparr>command = None, verbose = None, verify = None, audio_path = None\<rparr> =
       (empty_state\<lparr>stdout := [ParserHelp '''']\<rparr>, Exit 1)
   \<and> main sample_world empty_state [''foo'', ''--verify''] =
       (empty_state\<lparr>stderr := [UsageError]\<rparr>, Exit 2)"
proof -
  have word: "\<not> py_startswith ''foo'' ''-'' \<and> ''foo'' \<noteq> ''download'' \<and> ''foo'' \<noteq> ''transcribe''
      \<and> list_all plain_word [''--verify'']"
    by (simp add: plain_word_def)
  show ?thesis
    using word
      C7_no_subcommand_or_unknown_word
        [of sample_world empty_state
            "\<lparr>command = None, verbose = None, verify = None, audio_path = None\<rparr>"
            "''foo''" "[''--verify'']"]
    by (simp add: empty_state_def)
qed


subsection \<open>The models directory\<close>

lemma os_makedirs_creates:
  "os_makedirs refusal p s = (s1, None) \<Longrightarrow> fs s1 p = Some Dir"
  by (auto simp add: os_makedirs_def split: option.splits node.splits)

lemma module_level_creates_models_dir:
  "module_level w s = (s1, None) \<Longrightarrow> fs s1 (MODELS_DIR w) = Some Dir"
  by (auto simp add: module_level_def Let_def
      split: prod.splits option.splits if_splits dest: os_makedirs_creates)

text \<open>
  Claim C9. The models directory is created when the script is imported, before
  \<^verbatim>\<open>main\<close> parses the command line, whatever the command line is: if the module level
  completes, the state \<^verbatim>\<open>main\<close> starts from has a directory at \<^verbatim>\<open>MODELS_DIR\<close>, for every
  \<open>argv\<close>. If the module level raises (the world refuses the directory, say), the script
  ends there with that exception and no command is dispatched at all.
\<close>

theorem C9_models_dir_created_at_import:
  "(module_level w s = (s1, None) \<longrightarrow>
      fs s1 (MODELS_DIR w) = Some Dir \<and> script w s argv = main w s1 argv)
   \<and> (module_level w s = (s1, Some e) \<longrightarrow> script w s argv = (s1, Uncaught e))"
  by (simp add: script_def module_level_creates_models_dir)

text \<open>
  From an empty disk: the directory is there when \<^verbatim>\<open>main\<close> starts, for \<^verbatim>\<open>transcribe\<close> and for an
  unknown subcommand; and on a machine that refuses the directory the run ends at import.
\<close>

theorem C9_models_dir_created_at_import_witness:
  "module_level sample_world empty_state =
     (empty_state\<lparr>fs := [''/home/u/.fethr/models'' \<mapsto> Dir], sys_modules := {''tqdm''}\<rparr>, None)
   \<and> MODELS_DIR sample_world = ''/home/u/.fethr/models''
   \<and> script sample_world empty_state [''transcribe'', ''a.wav''] =
       main sample_world
         (empty_state\<lparr>fs := [''/home/u/.fethr/models'' \<mapsto> Dir], sys_modules := {''tqdm''}\<rparr>)
         [''transcribe'', ''a.wav'']
   \<and> script sample_world empty_state [''bogus''] =
       main sample_world
         (empty_state\<lparr>fs := [''/home/u/.fethr/models'' \<mapsto> Dir], sys_modules := {''tqdm''}\<rparr>)
         [''bogus'']
   \<and> script (sample_world\<lparr>makedirs_at_import :=
                 Some (Exc (OtherError ''PermissionError'') ''[Errno 13] Permission denied'')\<rparr>)
        empty_state [''download''] =
       (empty_state\<lparr>sys_modules := {''tqdm''}\<rparr>,
        Uncaught (Exc (OtherError ''PermissionError'') ''[Errno 13] Permission denied''))"
proof -
  let ?s1 = "empty_state\<lparr>fs := [''/home/u/.fethr/models'' \<mapsto> Dir], sys_modules := {''tqdm''}\<rparr>"
  let ?w = "sample_world\<lparr>makedirs_at_import :=
                 Some (Exc (OtherError ''PermissionError'') ''[Errno 13] Permission denied'')\<rparr>"
  have dir: "MODELS_DIR sample_world = ''/home/u/.fethr/models''"
    by (simp add: sample_defs)
  have ok: "module_level sample_world empty_state = (?s1, None)"
    by (simp add: module_level_def py_import_def os_makedirs_def sample_defs)
  have refused: "module_level ?w empty_state =
      (empty_state\<lparr>sys_modules := {''tqdm''}\<rparr>,
       Some (Exc (OtherError ''PermissionError'') ''[Errno 13] Permission denied''))"
    by (simp add: module_level_def py_import_def os_makedirs_def sample_defs)
  show ?thesis
    using ok dir refused
      C9_models_dir_created_at_import
        [of sample_world empty_state ?s1 "[''transcribe'', ''a.wav'']"]
      C9_models_dir_created_at_import [of sample_world empty_state ?s1 "[''bogus'']"]
      C9_models_dir_created_at_import
        [of ?w empty_state "empty_state\<lparr>sys_modules := {''tqdm''}\<rparr>" "[''download'']"
            "Exc (OtherError ''PermissionError'') ''[Errno 13] Permission denied''"]
    by simp
qed

subsection \<open>The \<^verbatim>\<open>download\<close> command\<close>

lemma verify_model_download_effects:
  "fs (fst (verify_model_download w s)) = fs s"
  "net (fst (verify_model_download w s)) = net s @ [Request ''HEAD'' WHISPER_MODEL_URL (Some 10)]"
  by (simp_all add: verify_model_download_def model_url_eq print_def Let_def
      split: head_outcome.splits sum.splits option.splits)

lemma os_makedirs_print:
  "os_makedirs refusal p (print l s) =
     (print l (fst (os_makedirs refusal p s)), snd (os_makedirs refusal p s))"
  by (simp add: os_makedirs_def print_def split: option.splits node.splits)

lemma download_model_except_result:
  "snd (download_model_except True e s) = Inr False"
  "Line (''Error downloading model: '' @ str_exc e) \<in> set (stdout (fst (download_model_except True e s)))"
  "py_in ''HTTP Error 404'' (str_exc e) \<Longrightarrow>
     Line (''The model may have been moved or renamed. ''
           @ ''Please check the repository for the latest model URLs.'')
       \<in> set (stdout (fst (download_model_except True e s)))"
  by (simp_all add: download_model_except_def print_def Let_def)

lemma download_model_transfer_failed:
  assumes "\<not> os_path_exists s (WHISPER_MODEL_PATH w)"
    and "snd (os_makedirs (makedirs_at_download w) (os_path_dirname (WHISPER_MODEL_PATH w)) s) = None"
    and "urlretrieve w = RetrieveFailed e partial"
  shows "\<exists>s'. download_model w s = download_model_except True e s'"
  using assms
  by (simp add: download_model_def os_makedirs_print Let_def split: prod.splits) blast

text \<open>
  Claim C5. For a namespace of the \<^verbatim>\<open>download\<close> command:
  \<^item> if \<^verbatim>\<open>--verify\<close> is set and the reachability check fails, the process prints that the
    download is aborted and exits 1, having made the HEAD request only and changed no file;
  \<^item> otherwise \<^verbatim>\<open>download_model\<close> runs (from the state the check left, if there was one),
    and when it returns, the process ends in the state it left with exit code 0 for success
    and 1 for failure.

  And a failed transfer makes \<^verbatim>\<open>download_model\<close> return failure: when the model file is
  absent, its directory is in place and \<^verbatim>\<open>urlretrieve\<close> raises \<open>e\<close>, the function returns
  \<^verbatim>\<open>False\<close> after printing \<^verbatim>\<open>Error downloading model: <e>\<close>, and when the text of \<open>e\<close> contains
  \<^verbatim>\<open>HTTP Error 404\<close> it also prints that the model may have been moved or renamed.
\<close>

theorem C5_download_command:
  "(command args = Some ''download'' \<and> verify args = Some True
      \<and> snd (verify_model_download w s) = False \<longrightarrow>
      dispatch w s args =
        (print ''Model URL verification failed. Aborting download.''
           (fst (verify_model_download w s)), Exit 1)
      \<and> net (fst (dispatch w s args)) = net s @ [Request ''HEAD'' WHISPER_MODEL_URL (Some 10)]
      \<and> fs (fst (dispatch w s args)) = fs s)
   \<and> (command args = Some ''download''
      \<and> s1 = (if verify args = Some True then fst (verify_model_download w s) else s)
      \<and> (verify args = Some True \<longrightarrow> snd (verify_model_download w s) = True)
      \<and> download_model w s1 = (s2, Inr success) \<longrightarrow>
      dispatch w s args = (s2, Exit (if success then 0 else 1)))
   \<and> (\<not> os_path_exists s (WHISPER_MODEL_PATH w)
      \<and> snd (os_makedirs (makedirs_at_download w) (os_path_dirname (WHISPER_MODEL_PATH w)) s) = None
      \<and> urlretrieve w = RetrieveFailed e partial \<longrightarrow>
      snd (download_model w s) = Inr False
      \<and> Line (''Error downloading model: '' @ str_exc e) \<in> set (stdout (fst (download_model w s)))
      \<and> (py_in ''HTTP Error 404'' (str_exc e) \<longrightarrow>
           Line (''The model may have been moved or renamed. ''
                 @ ''Please check the repository for the latest model URLs.'')
             \<in> set (stdout (fst (download_model w s)))))"
proof -
  have abort: "dispatch w s args =
        (print ''Model URL verification failed. Aborting download.''
           (fst (verify_model_download w s)), Exit 1)
      \<and> net (fst (dispatch w s args)) = net s @ [Request ''HEAD'' WHISPER_MODEL_URL (Some 10)]
      \<and> fs (fst (dispatch w s args)) = fs s"
    if "command args = Some ''download''" "verify args = Some True"
       "snd (verify_model_download w s) = False"
  proof -
    have "dispatch w s args =
        (print ''Model URL verification failed. Aborting download.''
           (fst (verify_model_download w s)), Exit 1)"
      using that by (auto simp add: dispatch_def split: prod.splits)
    then show ?thesis
      by (simp add: print_def verify_model_download_effects)
  qed
  have run: "dispatch w s args = (s2, Exit (if success then 0 else 1))"
    if "command args = Some ''download''"
       "s1 = (if verify args = Some True then fst (verify_model_download w s) else s)"
       "verify args = Some True \<longrightarrow> snd (verify_model_download w s) = True"
       "download_model w s1 = (s2, Inr success)"
    using that by (auto simp add: dispatch_def split: prod.splits)
  have failed: "snd (download_model w s) = Inr False
      \<and> Line (''Error downloading model: '' @ str_exc e) \<in> set (stdout (fst (download_model w s)))
      \<and> (py_in ''HTTP Error 404'' (str_exc e) \<longrightarrow>
           Line (''The model may have been moved or renamed. ''
                 @ ''Please check the repository for the latest model URLs.'')
             \<in> set (stdout (fst (download_model w s))))"
    if transfer: "\<not> os_path_exists s (WHISPER_MODEL_PATH w)"
       "snd (os_makedirs (makedirs_at_download w) (os_path_dirname (WHISPER_MODEL_PATH w)) s) = None"
       "urlretrieve w = RetrieveFailed e partial"
  proof -
    obtain s' where "download_model w s = download_model_except True e s'"
      using download_model_transfer_failed [OF transfer] by blast
    then show ?thesis
      using download_model_except_result [of e s'] by simp
  qed
  show ?thesis using abort run failed by blast
qed


text \<open>
  A server that does not answer the check, the sample server, and a server that answers 404,
  with everything \<^verbatim>\<open>download_model\<close> prints in that case.
\<close>

theorem C5_download_command_witness:
  "snd (dispatch unreachable_world empty_state
          \<lparr>command = Some ''download'', verbose = Some False, verify = Some True,
           audio_path = None\<rparr>) = Exit 1
   \<and> net (fst (dispatch unreachable_world empty_state
          \<lparr>command = Some ''download'', verbose = Some False, verify = Some True,
           audio_path = None\<rparr>)) =
       [Request ''HEAD''
          ''https://huggingface.co/ggerganov/whisper.cpp/resolve/main/ggml-tiny.en.bin'' (Some 10)]
   \<and> snd (dispatch sample_world empty_state
          \<lparr>command = Some ''download'', verbose = Some False, verify = Some False,
           audio_path = None\<rparr>) = Exit 0
   \<and> snd (dispatch not_found_world empty_state
          \<lparr>command = Some ''download'', verbose = Some False, verify = Some False,
           audio_path = None\<rparr>) = Exit 1
   \<and> snd (download_model not_found_world empty_state) = Inr False
   \<and> stdout (fst (download_model not_found_world empty_state)) =
       [Line ''Downloading Whisper model (tiny.en) from Hugging Face...'',
        Line ''Downloading from: https://huggingface.co/ggerganov/whisper.cpp/resolve/main/ggml-tiny.en.bin'',
        Line ''Saving to: /home/u/.fethr/models/ggml-tiny.en.bin'',
        Line ''Error downloading model: HTTP Error 404: Not Found'',
        Line ''Model file not found at URL: https://huggingface.co/ggerganov/whisper.cpp/resolve/main/ggml-tiny.en.bin'',
        Line ''The model may have been moved or renamed. Please check the repository for the latest model URLs.'']"
proof -
  let ?verify = "\<lparr>command = Some ''download'', verbose = Some False, verify = Some True,
           audio_path = None\<rparr>"
  let ?plain = "\<lparr>command = Some ''download'', verbose = Some False, verify = Some False,
           audio_path = None\<rparr>"
  have url: "WHISPER_MODEL_URL =
      ''https://huggingface.co/ggerganov/whisper.cpp/resolve/main/ggml-tiny.en.bin''"
    by (simp add: sample_defs)
  have no_requests: "net empty_state = []"
    by (simp add: empty_state_def)
  have unreachable: "snd (verify_model_download unreachable_world empty_state) = False"
    by (simp add: verify_model_download_def unreachable_world_def)
  have fetched: "download_model sample_world empty_state =
      (fst (download_model sample_world empty_state), Inr True)"
    by (simp add: prod_eq_iff download_model_def os_makedirs_def sample_defs)
  have absent: "\<not> os_path_exists empty_state (WHISPER_MODEL_PATH not_found_world)"
    by (simp add: os_path_exists_def empty_state_def)
  have dir: "snd (os_makedirs (makedirs_at_download not_found_world)
      (os_path_dirname (WHISPER_MODEL_PATH not_found_world)) empty_state) = None"
    by (simp add: os_makedirs_def not_found_world_def sample_defs)
  have transfer: "urlretrieve not_found_world =
      RetrieveFailed (Exc (OtherError ''HTTPError'') ''HTTP Error 404: Not Found'') None"
    by (simp add: not_found_world_def)
  have lines: "stdout (fst (download_model not_found_world empty_state)) =
       [Line ''Downloading Whisper model (tiny.en) from Hugging Face...'',
        Line ''Downloading from: https://huggingface.co/ggerganov/whisper.cpp/resolve/main/ggml-tiny.en.bin'',
        Line ''Saving to: /home/u/.fethr/models/ggml-tiny.en.bin'',
        Line ''Error downloading model: HTTP Error 404: Not Found'',
        Line ''Model file not found at URL: https://huggingface.co/ggerganov/whisper.cpp/resolve/main/ggml-tiny.en.bin'',
        Line ''The model may have been moved or renamed. Please check the repository for the latest model URLs.'']"
    by (simp add: download_model_def download_model_except_def os_makedirs_def
        not_found_world_def sample_defs)
  have failed: "snd (download_model not_found_world empty_state) = Inr False"
    using C5_download_command
      [of _ not_found_world empty_state _ _ _
          "Exc (OtherError ''HTTPError'') ''HTTP Error 404: Not Found''" None]
      absent dir transfer
    by simp
  then have not_fetched: "download_model not_found_world empty_state =
      (fst (download_model not_found_world empty_state), Inr False)"
    by (simp add: prod_eq_iff)
  have a: "snd (dispatch unreachable_world empty_state ?verify) = Exit 1
      \<and> net (fst (dispatch unreachable_world empty_state ?verify)) =
       [Request ''HEAD''
          ''https://huggingface.co/ggerganov/whisper.cpp/resolve/main/ggml-tiny.en.bin'' (Some 10)]"
  proof -
    have "command ?verify = Some ''download'' \<and> verify ?verify = Some True
        \<and> snd (verify_model_download unreachable_world empty_state) = False"
      using unreachable by simp
    note aborted =
      C5_download_command [of ?verify unreachable_world empty_state, THEN conjunct1, THEN mp, OF this]
    show ?thesis
      using aborted [THEN conjunct1] aborted [THEN conjunct2, THEN conjunct1] url no_requests
      by simp
  qed
  have b: "snd (dispatch sample_world empty_state ?plain) = Exit 0"
    using C5_download_command
      [of ?plain sample_world empty_state empty_state
          "fst (download_model sample_world empty_state)" True]
      fetched
    by simp
  have c: "snd (dispatch not_found_world empty_state ?plain) = Exit 1"
    using C5_download_command
      [of ?plain not_found_world empty_state empty_state
          "fst (download_model not_found_world empty_state)" False]
      not_fetched
    by simp
  show ?thesis using a b c failed lines by blast
qed

subsection \<open>The transcription result\<close>

text \<open>
  Claim C4. On a successful transcription (the audio file exists, the model is present or
  was downloaded, the library is installed and imported, the model loads, the library
  returns a dictionary \<open>result\<close> that has a \<^verbatim>\<open>text\<close>, and the three values can be written as
  JSON) \<^verbatim>\<open>transcribe_audio\<close> returns the JSON object with exactly the fields \<^verbatim>\<open>text\<close>,
  \<^verbatim>\<open>language\<close> and \<^verbatim>\<open>segments\<close>, in this order: \<^verbatim>\<open>text\<close> is the result's, \<^verbatim>\<open>language\<close> is the
  result's or \<^verbatim>\<open>"en"\<close> when the result has none, \<^verbatim>\<open>segments\<close> is the result's or \<^verbatim>\<open>[]\<close> when the
  result has none.
\<close>

theorem C4_transcription_result_document:
  assumes "os_path_exists s audio"
    and "(if \<not> os_path_exists s (WHISPER_MODEL_PATH w) then download_model w s
          else (s, Inr True)) = (s1, Inr True)"
    and "install_whisper w s1 = (s2, Inr True)"
    and "py_import ''whisper'' (import_whisper_again w) s2 = (s3, None)"
    and "load_model w = None"
    and "transcribe w audio = Inr result"
    and "map_of result ''text'' = Some text"
    and "json_dumps text = Inr jtext"
    and "json_dumps (dict_get result ''language'' (PStr ''en'')) = Inr jlanguage"
    and "json_dumps (dict_get result ''segments'' (PList [])) = Inr jsegments"
  shows \<open>snd (transcribe_audio w s audio) =
           Inr (''{"text": '' @ jtext @ '', "language": '' @ jlanguage
                @ '', "segments": '' @ jsegments @ ''}'')
         \<and> (map_of result ''language'' = None \<longrightarrow> jlanguage = ''"en"'')
         \<and> (map_of result ''segments'' = None \<longrightarrow> jsegments = ''[]'')\<close>
proof -
  have document: \<open>json_dumps (PDict
       [(''text'', text),
        (''language'', dict_get result ''language'' (PStr ''en'')),
        (''segments'', dict_get result ''segments'' (PList []))]) =
      Inr (''{"text": '' @ jtext @ '', "language": '' @ jlanguage
           @ '', "segments": '' @ jsegments @ ''}'')\<close>
    using assms(8-10) by (simp add: json_string_def json_escape_char_def)
  have returned: \<open>snd (transcribe_audio w s audio) =
           Inr (''{"text": '' @ jtext @ '', "language": '' @ jlanguage
                @ '', "segments": '' @ jsegments @ ''}'')\<close>
    using assms(1-7) document
    by (simp add: transcribe_audio_def dict_index_def Let_def)
  have language: \<open>jlanguage = ''"en"''\<close> if "map_of result ''language'' = None"
    using that assms(9) by (simp add: dict_get_def json_string_def json_escape_char_def)
  have segments: "jsegments = ''[]''" if "map_of result ''segments'' = None"
    using that assms(10) by (simp add: dict_get_def)
  show ?thesis using returned language segments by blast
qed


text \<open>
  The stubbed library of the sample machine returns \<^verbatim>\<open>{"text": "hello", "language": "en"}\<close>:
  the text returned has \<^verbatim>\<open>text\<close> \<^verbatim>\<open>hello\<close>, \<^verbatim>\<open>language\<close> \<^verbatim>\<open>en\<close> and no segments.
\<close>

theorem C4_transcription_result_document_witness:
  \<open>snd (transcribe_audio sample_world ready_state ''a.wav'') =
     Inr ''{"text": "hello", "language": "en", "segments": []}''\<close>
proof -
  let ?s2 = "print ''Whisper package is already installed''
               (ready_state\<lparr>sys_modules := {''whisper''}\<rparr>)"
  let ?result = "[(''text'', PStr ''hello''), (''language'', PStr ''en'')]"
  have audio: "os_path_exists ready_state ''a.wav''"
    by (simp add: sample_defs)
  have model: "(if \<not> os_path_exists ready_state (WHISPER_MODEL_PATH sample_world)
                then download_model sample_world ready_state
                else (ready_state, Inr True)) = (ready_state, Inr True)"
    by (simp add: sample_defs)
  have installed: "install_whisper sample_world ready_state = (?s2, Inr True)"
    by (simp add: install_whisper_def py_import_def sample_defs)
  have imported: "py_import ''whisper'' (import_whisper_again sample_world) ?s2 = (?s2, None)"
    by (simp add: py_import_def print_def)
  have loaded: "load_model sample_world = None"
    by (simp add: sample_world_def)
  have transcribed: "transcribe sample_world ''a.wav'' = Inr ?result"
    by (simp add: sample_world_def)
  have has_text: "map_of ?result ''text'' = Some (PStr ''hello'')"
    by simp
  have jtext: \<open>json_dumps (PStr ''hello'') = Inr ''"hello"''\<close>
    by (simp add: json_string_def json_escape_char_def)
  have jlanguage: \<open>json_dumps (dict_get ?result ''language'' (PStr ''en'')) = Inr ''"en"''\<close>
    by (simp add: dict_get_def json_string_def json_escape_char_def)
  have jsegments: "json_dumps (dict_get ?result ''segments'' (PList [])) = Inr ''[]''"
    by (simp add: dict_get_def)
  show ?thesis
    using C4_transcription_result_document
      [OF audio model installed imported loaded transcribed has_text jtext jlanguage jsegments]
    by simp
qed

subsection \<open>Failures that leave \<^verbatim>\<open>transcribe_audio\<close>\<close>

text \<open>
  Claim C1 says that the \<^verbatim>\<open>transcribe\<close> command never ends in an uncaught exception and
  always exits 0, every failure becoming an \<^verbatim>\<open>error\<close> field. The code does this for a missing
  audio file, a failed download, a failed installation, and anything raised while loading
  the model, transcribing and writing the JSON; it misses the imports of the library.
  \<^verbatim>\<open>import whisper\<close> on line 157 stands outside the \<^verbatim>\<open>try\<close>, and \<^verbatim>\<open>install_whisper\<close> catches
  \<^verbatim>\<open>ImportError\<close> only. With an audio file and the model in place:
  \<^item> where \<^verbatim>\<open>pip\<close> reports success and the module still cannot be imported, the
    \<^verbatim>\<open>ImportError\<close> of line 157 leaves \<^verbatim>\<open>transcribe_audio\<close> and \<^verbatim>\<open>main\<close>: the process ends with a
    traceback and exit status 1, and prints no JSON;
  \<^item> where importing the installed library raises something else than \<^verbatim>\<open>ImportError\<close>, the
    exception leaves \<^verbatim>\<open>install_whisper\<close>, with the same end.
\<close>

theorem C1_import_failure_escapes:
  "snd (main install_without_effect_world ready_state [''transcribe'', ''a.wav'']) =
     Uncaught no_module_named_whisper
   \<and> exit_status (snd (main install_without_effect_world ready_state [''transcribe'', ''a.wav'']))
       = 1
   \<and> stdout (fst (main install_without_effect_world ready_state [''transcribe'', ''a.wav''])) =
       [Line ''Installing whisper package...'', Line ''Whisper package installed successfully'']
   \<and> snd (main broken_library_world ready_state [''transcribe'', ''a.wav'']) =
       Uncaught (Exc (OtherError ''OSError'') ''libtorch_cpu.so: cannot open shared object file'')
   \<and> stdout (fst (main broken_library_world ready_state [''transcribe'', ''a.wav''])) = []"
proof -
  have parsed: "parse_args w [''transcribe'', ''a.wav''] =
      Parsed \<lparr>command = Some ''transcribe'', verbose = None, verify = None,
              audio_path = Some ''a.wav''\<rparr>" for w
    by (simp add: parse_transcribe_word)
  have first: "transcribe_audio install_without_effect_world ready_state ''a.wav'' =
      (check_call [''/usr/bin/python3'', ''-m'', ''pip'', ''install'', ''openai-whisper'']
         (print ''Installing whisper package...'' ready_state)
         \<lparr>stdout := [Line ''Installing whisper package...'',
                      Line ''Whisper package installed successfully'']\<rparr>,
       Inl no_module_named_whisper)"
    by (simp add: transcribe_audio_def install_whisper_def py_import_def check_call_def
        is_ImportError_def install_without_effect_world_def no_module_named_whisper_def
        sample_defs)
  have second: "transcribe_audio broken_library_world ready_state ''a.wav'' =
      (ready_state,
       Inl (Exc (OtherError ''OSError'') ''libtorch_cpu.so: cannot open shared object file''))"
    by (simp add: transcribe_audio_def install_whisper_def py_import_def
        is_ImportError_def broken_library_world_def sample_defs)
  have quiet: "stdout ready_state = []"
    by (simp add: ready_state_def empty_state_def)
  show ?thesis
    by (simp add: main_def parsed dispatch_def first second quiet)
qed

end
